theory Spec2Isabelle
  imports Complex_Main
begin

section \<open>Barks: byte and header accounting of a flow\<close>

text \<open>
  A shallow embedding of \<^verbatim>\<open>ContElements/Barks.py\<close>. The class attributes of
  \<^verbatim>\<open>Barks\<close> (the four cumulative totals and \<^verbatim>\<open>row\<close>) are a record that
  every method which assigns to them takes and returns; the methods that only read the
  flow are functions of the flow. Python's unbounded integers are \<open>int\<close>. The rates
  and ratios are Python floats; they are modelled as \<open>real\<close>, so \<open>/\<close> is exact
  division and no rounding is modelled.
\<close>

subsection \<open>Data\<close>

text \<open>
  Modelled from the spec: the packet class (scapy's) is not part of the source. The record
  has the four observations the methods make of a packet, as the data model of the spec
  lists them: \<^verbatim>\<open>packet.src\<close>, \<^verbatim>\<open>packet.proto\<close>, \<^verbatim>\<open>len(packet)\<close> and
  \<^verbatim>\<open>packet['IP'].ttl\<close>. Only the last one is optional there (present only on IP
  packets): \<open>None\<close> stands for a packet without an IP layer, on which
  \<^verbatim>\<open>packet['IP']\<close> raises IndexError.
\<close>

record packet =
  src :: string
  proto :: int
  len :: nat
  ip_ttl :: "int option"

text \<open>
  Modelled from the spec: \<^verbatim>\<open>ContElements.Context.PacketDirection\<close> is not under
  the source directory; the spec gives it as the two-valued enumeration.
\<close>

datatype PacketDirection = FORWARD | REVERSE

text \<open>The flow handed to \<^verbatim>\<open>Barks(feature)\<close>: its packets in capture order, each with its
  direction, and the interface the capture runs on.\<close>

record feature =
  packets :: "(packet \<times> PacketDirection) list"
  interface :: string

text \<open>The class attributes of \<^verbatim>\<open>Barks\<close>, in the order the class body declares them.\<close>

record barks =
  total_bytes_received :: int
  total_bytes_sent :: int
  total_forward_header_bytes :: int
  total_reverse_header_bytes :: int
  row :: int

text \<open>The class body: every attribute starts at zero.\<close>

definition Barks :: barks where
  "Barks = \<lparr>total_bytes_received = 0, total_bytes_sent = 0,
     total_forward_header_bytes = 0, total_reverse_header_bytes = 0, row = 0\<rparr>"

text \<open>The two exceptions \<^verbatim>\<open>get_initial_ttl\<close> can raise; both are Python's IndexError:
  the one of \<^verbatim>\<open>packet['IP']\<close> on a packet without that layer, and the one of
  \<^verbatim>\<open>[...][0]\<close> on an empty list.\<close>

datatype error = IndexError_layer_not_found | IndexError_list_index_out_of_range

text \<open>
  Two collaborators are parameters of the methods that call them:
  \<open>get_if_hwaddr\<close>, scapy's map from an interface to the hardware address of the
  local machine, and \<open>get_duration\<close>, standing for
  \<^verbatim>\<open>PacketTime(feature).get_duration()\<close>, which is not under the source directory.
  The spec gives the duration as the elapsed time between the first and the last packet of
  the flow, in seconds: it is never negative, and the properties of the rates are stated
  for the durations \<open>0 \<le> get_duration feat\<close>.
\<close>

subsection \<open>Construction\<close>

text \<open>\<^verbatim>\<open>__init__\<close>: the instance keeps the flow, and \<^verbatim>\<open>Barks.row += 1\<close>. The
  instance has no other attribute, so it is its flow.\<close>

definition Barks_init :: "feature \<Rightarrow> barks \<Rightarrow> feature \<times> barks" where
  "Barks_init feat B = (feat, B\<lparr>row := row B + 1\<rparr>)"

subsection \<open>Bytes sent and received\<close>

definition get_bytes_sent :: "(string \<Rightarrow> string) \<Rightarrow> feature \<Rightarrow> int" where
  "get_bytes_sent get_if_hwaddr feat =
     (let iface = get_if_hwaddr (interface feat)
      in sum_list [int (len p). (p, _) \<leftarrow> packets feat, src p = iface])"

definition get_sent_rate :: "(string \<Rightarrow> string) \<Rightarrow> (feature \<Rightarrow> real) \<Rightarrow> feature \<Rightarrow> real" where
  "get_sent_rate get_if_hwaddr get_duration feat =
     (let sent = get_bytes_sent get_if_hwaddr feat;
          duration = get_duration feat
      in if duration = 0 then - 1 else real_of_int sent / duration)"

definition get_total_bytes_sent :: "(string \<Rightarrow> string) \<Rightarrow> feature \<Rightarrow> barks \<Rightarrow> int \<times> barks" where
  "get_total_bytes_sent get_if_hwaddr feat B =
     (let B' = (if row B = 1
                then B\<lparr>total_bytes_sent :=
                       get_bytes_sent get_if_hwaddr feat - get_bytes_sent get_if_hwaddr feat\<rparr>
                else B\<lparr>total_bytes_sent :=
                       total_bytes_sent B + get_bytes_sent get_if_hwaddr feat\<rparr>)
      in (total_bytes_sent B', B'))"

definition get_bytes_received :: "(string \<Rightarrow> string) \<Rightarrow> feature \<Rightarrow> int" where
  "get_bytes_received get_if_hwaddr feat =
     (let iface = get_if_hwaddr (interface feat)
      in sum_list [int (len p). (p, _) \<leftarrow> packets feat, src p \<noteq> iface])"

definition get_received_rate :: "(string \<Rightarrow> string) \<Rightarrow> (feature \<Rightarrow> real) \<Rightarrow> feature \<Rightarrow> real" where
  "get_received_rate get_if_hwaddr get_duration feat =
     (let received = get_bytes_received get_if_hwaddr feat;
          duration = get_duration feat
      in if duration = 0 then - 1 else real_of_int received / duration)"

definition get_total_bytes_received :: "(string \<Rightarrow> string) \<Rightarrow> feature \<Rightarrow> barks \<Rightarrow> int \<times> barks" where
  "get_total_bytes_received get_if_hwaddr feat B =
     (let B' = (if row B = 1
                then B\<lparr>total_bytes_received :=
                       get_bytes_received get_if_hwaddr feat - get_bytes_received get_if_hwaddr feat\<rparr>
                else B\<lparr>total_bytes_received :=
                       total_bytes_received B + get_bytes_received get_if_hwaddr feat\<rparr>)
      in (total_bytes_received B', B'))"

subsection \<open>Header bytes\<close>

text \<open>
  Modelled from the spec: \<^verbatim>\<open>len(Ether())\<close>, \<^verbatim>\<open>len(IP())\<close> and \<^verbatim>\<open>len(TCP())\<close>
  are computed by scapy, which is not part of the source; the spec gives them as the sizes
  of the default Ethernet, IPv4 and TCP headers: 14, 20 and 20 bytes.
\<close>

definition len_Ether :: int where "len_Ether = 14"
definition len_IP :: int where "len_IP = 20"
definition len_TCP :: int where "len_TCP = 20"

text \<open>The local function \<^verbatim>\<open>header_size\<close>, written out twice in the source, in
  \<^verbatim>\<open>get_forward_header_bytes\<close> and in \<^verbatim>\<open>get_reverse_header_bytes\<close>, with the same
  body.\<close>

definition header_size :: "packet \<Rightarrow> int" where
  "header_size p =
     (let res = len_Ether + len_IP
      in if proto p = 6 then res + len_TCP else res)"

definition get_forward_header_bytes :: "feature \<Rightarrow> int" where
  "get_forward_header_bytes feat =
     sum_list [header_size p. (p, direction) \<leftarrow> packets feat, direction = FORWARD]"

definition get_forward_rate :: "(feature \<Rightarrow> real) \<Rightarrow> feature \<Rightarrow> real" where
  "get_forward_rate get_duration feat =
     (let forward = get_forward_header_bytes feat;
          duration = get_duration feat
      in if duration > 0 then real_of_int forward / duration else - 1)"

definition get_total_forward_bytes :: "feature \<Rightarrow> barks \<Rightarrow> int \<times> barks" where
  "get_total_forward_bytes feat B =
     (let B' = (if row B = 1
                then B\<lparr>total_forward_header_bytes :=
                       get_forward_header_bytes feat - get_forward_header_bytes feat\<rparr>
                else B\<lparr>total_forward_header_bytes :=
                       total_forward_header_bytes B + get_forward_header_bytes feat\<rparr>)
      in (total_forward_header_bytes B', B'))"

definition get_reverse_header_bytes :: "feature \<Rightarrow> int" where
  "get_reverse_header_bytes feat =
     sum_list [header_size p. (p, direction) \<leftarrow> packets feat, direction = REVERSE]"

definition get_total_reverse_bytes :: "feature \<Rightarrow> barks \<Rightarrow> int \<times> barks" where
  "get_total_reverse_bytes feat B =
     (let B' = (if row B = 1
                then B\<lparr>total_reverse_header_bytes :=
                       get_reverse_header_bytes feat - get_reverse_header_bytes feat\<rparr>
                else B\<lparr>total_reverse_header_bytes :=
                       total_reverse_header_bytes B + get_reverse_header_bytes feat\<rparr>)
      in (total_reverse_header_bytes B', B'))"

definition get_reverse_rate :: "(feature \<Rightarrow> real) \<Rightarrow> feature \<Rightarrow> real" where
  "get_reverse_rate get_duration feat =
     (let reverse = get_reverse_header_bytes feat;
          duration = get_duration feat
      in if duration = 0 then - 1 else real_of_int reverse / duration)"

subsection \<open>Ratios\<close>

definition get_header_in_out_ratio :: "feature \<Rightarrow> real" where
  "get_header_in_out_ratio feat =
     (let reverse_header_bytes = get_reverse_header_bytes feat;
          forward_header_bytes = get_forward_header_bytes feat
      in if reverse_header_bytes \<noteq> 0
         then real_of_int forward_header_bytes / real_of_int reverse_header_bytes
         else - 1)"

definition get_total_header_in_out_ratio :: "barks \<Rightarrow> real" where
  "get_total_header_in_out_ratio B =
     (let reverse_header_bytes = total_reverse_header_bytes B;
          forward_header_bytes = total_forward_header_bytes B
      in if reverse_header_bytes \<noteq> 0
         then real_of_int forward_header_bytes / real_of_int reverse_header_bytes
         else - 1)"

subsection \<open>Initial time to live\<close>

text \<open>The list comprehension of \<^verbatim>\<open>get_initial_ttl\<close>: it reads
  \<^verbatim>\<open>packet['IP'].ttl\<close> of every packet of the flow, in order, and the first packet
  without an IP layer raises.\<close>

fun ttl_list :: "(packet \<times> PacketDirection) list \<Rightarrow> error + int list" where
  "ttl_list [] = Inr []"
| "ttl_list ((p, _) # ps) =
     (case ip_ttl p of
        None \<Rightarrow> Inl IndexError_layer_not_found
      | Some t \<Rightarrow> (case ttl_list ps of Inl e \<Rightarrow> Inl e | Inr ts \<Rightarrow> Inr (t # ts)))"

text \<open>The element 0 of the list built; on the empty list \<^verbatim>\<open>[0]\<close> raises.\<close>

definition get_initial_ttl :: "feature \<Rightarrow> error + int" where
  "get_initial_ttl feat =
     (case ttl_list (packets feat) of
        Inl e \<Rightarrow> Inl e
      | Inr [] \<Rightarrow> Inl IndexError_list_index_out_of_range
      | Inr (t # _) \<Rightarrow> Inr t)"

subsection \<open>Method calls on the shared class attributes\<close>

text \<open>The fifteen getters of the class, in the order the source defines them.\<close>

datatype getter =
    Bytes_sent | Sent_rate | Total_bytes_sent
  | Bytes_received | Received_rate | Total_bytes_received
  | Forward_header_bytes | Forward_rate | Total_forward_bytes
  | Reverse_header_bytes | Total_reverse_bytes | Reverse_rate
  | Header_in_out_ratio | Total_header_in_out_ratio
  | Initial_ttl

text \<open>What a call hands back: an integer, a float, or an exception.\<close>

datatype result = Int_result int | Float_result real | Raised error

text \<open>
  One call \<^verbatim>\<open>instance.get_...()\<close> on the instance holding \<open>feat\<close>, with the class
  attributes before the call; it gives the result and the class attributes after the call.
  Only the four methods that assign to a class attribute give attributes other than the
  ones they were given.
\<close>

fun call :: "(string \<Rightarrow> string) \<Rightarrow> (feature \<Rightarrow> real) \<Rightarrow> getter \<Rightarrow> feature \<Rightarrow> barks
    \<Rightarrow> result \<times> barks" where
  "call h d Bytes_sent feat B = (Int_result (get_bytes_sent h feat), B)"
| "call h d Sent_rate feat B = (Float_result (get_sent_rate h d feat), B)"
| "call h d Total_bytes_sent feat B =
     (case get_total_bytes_sent h feat B of (v, B') \<Rightarrow> (Int_result v, B'))"
| "call h d Bytes_received feat B = (Int_result (get_bytes_received h feat), B)"
| "call h d Received_rate feat B = (Float_result (get_received_rate h d feat), B)"
| "call h d Total_bytes_received feat B =
     (case get_total_bytes_received h feat B of (v, B') \<Rightarrow> (Int_result v, B'))"
| "call h d Forward_header_bytes feat B = (Int_result (get_forward_header_bytes feat), B)"
| "call h d Forward_rate feat B = (Float_result (get_forward_rate d feat), B)"
| "call h d Total_forward_bytes feat B =
     (case get_total_forward_bytes feat B of (v, B') \<Rightarrow> (Int_result v, B'))"
| "call h d Reverse_header_bytes feat B = (Int_result (get_reverse_header_bytes feat), B)"
| "call h d Total_reverse_bytes feat B =
     (case get_total_reverse_bytes feat B of (v, B') \<Rightarrow> (Int_result v, B'))"
| "call h d Reverse_rate feat B = (Float_result (get_reverse_rate d feat), B)"
| "call h d Header_in_out_ratio feat B = (Float_result (get_header_in_out_ratio feat), B)"
| "call h d Total_header_in_out_ratio feat B =
     (Float_result (get_total_header_in_out_ratio B), B)"
| "call h d Initial_ttl feat B =
     (case get_initial_ttl feat of Inl e \<Rightarrow> (Raised e, B) | Inr t \<Rightarrow> (Int_result t, B))"

subsection \<open>Sessions\<close>

text \<open>
  A session is a sequence of events: \<open>New feat\<close> is \<^verbatim>\<open>Barks(feat)\<close>, and
  \<open>Call i g\<close> calls the getter \<open>g\<close> on the instance constructed \<open>i\<close>-th (counting
  from 0). The state of a session is the list of the instances constructed so far, in
  order, and the class attributes. A call on an instance that has not been constructed
  cannot be written in Python: the run is \<open>None\<close>.
\<close>

datatype event = New feature | Call nat getter

fun step :: "(string \<Rightarrow> string) \<Rightarrow> (feature \<Rightarrow> real) \<Rightarrow> event \<Rightarrow> feature list \<times> barks
    \<Rightarrow> (feature list \<times> barks) option" where
  "step h d (New feat) (objs, B) =
     (case Barks_init feat B of (obj, B') \<Rightarrow> Some (objs @ [obj], B'))"
| "step h d (Call i g) (objs, B) =
     (if i < length objs then Some (objs, snd (call h d g (objs ! i) B)) else None)"

fun exec :: "(string \<Rightarrow> string) \<Rightarrow> (feature \<Rightarrow> real) \<Rightarrow> event list \<Rightarrow> feature list \<times> barks
    \<Rightarrow> (feature list \<times> barks) option" where
  "exec h d [] st = Some st"
| "exec h d (e # es) st =
     (case step h d e st of None \<Rightarrow> None | Some st' \<Rightarrow> exec h d es st')"

text \<open>The instances, other than the first one constructed, on which a session calls the
  getter \<open>g\<close>: one entry for each call, in the order of the calls.\<close>

fun later_calls :: "getter \<Rightarrow> event list \<Rightarrow> nat list" where
  "later_calls g [] = []"
| "later_calls g (New feat # es) = later_calls g es"
| "later_calls g (Call i g' # es) =
     (if g' = g \<and> 1 \<le> i then i # later_calls g es else later_calls g es)"

text \<open>The four getters of a cumulative total.\<close>

definition total_getters :: "getter list" where
  "total_getters = [Total_bytes_sent, Total_bytes_received, Total_forward_bytes, Total_reverse_bytes]"

text \<open>For a getter of a cumulative total: the class attribute it assigns to, and the
  statistic of the flow it adds. Both are 0 for the other getters, which have neither.\<close>

fun counter :: "getter \<Rightarrow> barks \<Rightarrow> int" where
  "counter Total_bytes_sent B = total_bytes_sent B"
| "counter Total_bytes_received B = total_bytes_received B"
| "counter Total_forward_bytes B = total_forward_header_bytes B"
| "counter Total_reverse_bytes B = total_reverse_header_bytes B"
| "counter _ B = 0"

fun statistic :: "(string \<Rightarrow> string) \<Rightarrow> getter \<Rightarrow> feature \<Rightarrow> int" where
  "statistic h Total_bytes_sent feat = get_bytes_sent h feat"
| "statistic h Total_bytes_received feat = get_bytes_received h feat"
| "statistic h Total_forward_bytes feat = get_forward_header_bytes feat"
| "statistic h Total_reverse_bytes feat = get_reverse_header_bytes feat"
| "statistic h _ feat = 0"

text \<open>The flows a session constructs, in order.\<close>

fun constructed :: "event list \<Rightarrow> feature list" where
  "constructed [] = []"
| "constructed (New feat # es) = feat # constructed es"
| "constructed (Call i g # es) = constructed es"

subsection \<open>Concrete flows\<close>

text \<open>The local machine has one hardware address, whatever the interface.\<close>

definition local_hwaddr :: "string \<Rightarrow> string" where
  "local_hwaddr iface = ''02:00:00:00:00:01''"

definition two_seconds :: "feature \<Rightarrow> real" where
  "two_seconds feat = 2"

definition no_time :: "feature \<Rightarrow> real" where
  "no_time feat = 0"

definition ip_packet :: "string \<Rightarrow> int \<Rightarrow> nat \<Rightarrow> packet" where
  "ip_packet s pr n = \<lparr>src = s, proto = pr, len = n, ip_ttl = Some 64\<rparr>"

text \<open>A packet without an IP layer (its protocol number is the one of ARP in a cooked
  capture header).\<close>

definition other_packet :: "string \<Rightarrow> nat \<Rightarrow> packet" where
  "other_packet s n = \<lparr>src = s, proto = 2054, len = n, ip_ttl = None\<rparr>"

text \<open>The flow of the concrete scenario of the spec: three TCP packets of lengths 100, 60
  and 60, the first two sent by the local machine and tagged FORWARD, the third received
  and tagged REVERSE, all with TTL 64.\<close>

definition flow_a :: feature where
  "flow_a = \<lparr>packets =
      [(ip_packet ''02:00:00:00:00:01'' 6 100, FORWARD),
       (ip_packet ''02:00:00:00:00:01'' 6 60, FORWARD),
       (ip_packet ''02:00:00:00:00:02'' 6 60, REVERSE)],
     interface = ''eth0''\<rparr>"

text \<open>Two UDP packets: 40 bytes sent, 80 bytes received.\<close>

definition flow_b :: feature where
  "flow_b = \<lparr>packets =
      [(ip_packet ''02:00:00:00:00:01'' 17 40, FORWARD),
       (ip_packet ''02:00:00:00:00:02'' 17 80, REVERSE)],
     interface = ''eth0''\<rparr>"

text \<open>A flow whose first packet is an IP packet and whose second packet has no IP layer,
  one whose first packet has no IP layer, and one without packets.\<close>

definition flow_c :: feature where
  "flow_c = \<lparr>packets =
      [(ip_packet ''02:00:00:00:00:01'' 6 100, FORWARD),
       (other_packet ''02:00:00:00:00:02'' 42, REVERSE)],
     interface = ''eth0''\<rparr>"

definition flow_d :: feature where
  "flow_d = \<lparr>packets =
      [(other_packet ''02:00:00:00:00:02'' 42, FORWARD),
       (ip_packet ''02:00:00:00:00:01'' 6 100, REVERSE)],
     interface = ''eth0''\<rparr>"

definition flow_e :: feature where
  "flow_e = \<lparr>packets = [], interface = ''eth0''\<rparr>"

text \<open>Class attributes in the middle of a session, all different.\<close>

definition mid_session :: barks where
  "mid_session = \<lparr>total_bytes_received = 11, total_bytes_sent = 22,
     total_forward_header_bytes = 33, total_reverse_header_bytes = 44, row = 5\<rparr>"

text \<open>What follows the first flow in a concrete session: two more instances are
  constructed, and getters are called on all three.\<close>

definition session_1 :: "event list" where
  "session_1 =
     [New flow_b, Call 1 Total_bytes_sent, Call 1 Total_bytes_received,
      Call 0 Header_in_out_ratio, New flow_a, Call 2 Total_forward_bytes,
      Call 1 Total_forward_bytes, Call 2 Total_bytes_sent, Call 1 Total_reverse_bytes]"

section \<open>Properties\<close>

subsection \<open>The values of the concrete flows\<close>

lemma flow_a_values:
  "get_bytes_sent local_hwaddr flow_a = 160"
  "get_bytes_received local_hwaddr flow_a = 60"
  "get_forward_header_bytes flow_a = 108"
  "get_reverse_header_bytes flow_a = 54"
  by (simp_all add: get_bytes_sent_def get_bytes_received_def get_forward_header_bytes_def
      get_reverse_header_bytes_def header_size_def len_Ether_def len_IP_def len_TCP_def
      flow_a_def ip_packet_def local_hwaddr_def)

lemma flow_b_values:
  "get_bytes_sent local_hwaddr flow_b = 40"
  "get_bytes_received local_hwaddr flow_b = 80"
  "get_forward_header_bytes flow_b = 34"
  "get_reverse_header_bytes flow_b = 34"
  by (simp_all add: get_bytes_sent_def get_bytes_received_def get_forward_header_bytes_def
      get_reverse_header_bytes_def header_size_def len_Ether_def len_IP_def len_TCP_def
      flow_b_def ip_packet_def local_hwaddr_def)

text \<open>The concrete scenario of the spec, with a duration of two seconds.\<close>

lemma scenario_values:
  "get_sent_rate local_hwaddr two_seconds flow_a = 80"
  "get_received_rate local_hwaddr two_seconds flow_a = 30"
  "get_header_in_out_ratio flow_a = 2"
  "get_initial_ttl flow_a = Inr 64"
  by (simp_all add: get_sent_rate_def get_received_rate_def get_header_in_out_ratio_def
      flow_a_values two_seconds_def)
    (simp add: get_initial_ttl_def flow_a_def ip_packet_def)

subsection \<open>Partitions of a flow\<close>

lemma sent_received_split:
  "sum_list [int (len p). (p, _) \<leftarrow> ps, src p = a] +
   sum_list [int (len p). (p, _) \<leftarrow> ps, src p \<noteq> a] =
   sum_list [int (len p). (p, _) \<leftarrow> ps]"
  by (induction ps) auto

lemma forward_reverse_split:
  "sum_list [header_size p. (p, direction) \<leftarrow> ps, direction = FORWARD] +
   sum_list [header_size p. (p, direction) \<leftarrow> ps, direction = REVERSE] =
   sum_list [header_size p. (p, _) \<leftarrow> ps]"
proof (induction ps)
  case Nil
  show ?case by simp
next
  case (Cons x ps)
  obtain p direction where x: "x = (p, direction)"
    by (cases x)
  show ?case
    using Cons x by (cases direction) simp_all
qed

text \<open>
  C7. For every flow and every hardware address the resolver gives for its interface, the
  bytes sent plus the bytes received are the sum of \<^verbatim>\<open>len(packet)\<close> over all the
  packets of the flow: a packet counts as sent when its source is that address and as
  received when it is not, so each packet is counted once.
\<close>

theorem bytes_sent_plus_received:
  "get_bytes_sent get_if_hwaddr feat + get_bytes_received get_if_hwaddr feat =
   sum_list [int (len p). (p, _) \<leftarrow> packets feat]"
  by (simp add: get_bytes_sent_def get_bytes_received_def sent_received_split)

text \<open>
  C8. For every flow, the forward header bytes plus the reverse header bytes are the sum of
  \<^verbatim>\<open>header_size(packet)\<close> over all the packets of the flow. The direction of a packet
  is a value of the enumeration, FORWARD or REVERSE, so every flow of the model is one in
  which each packet carries one of the two tags.
\<close>

theorem forward_plus_reverse_header_bytes:
  "get_forward_header_bytes feat + get_reverse_header_bytes feat =
   sum_list [header_size p. (p, _) \<leftarrow> packets feat]"
  by (simp add: get_forward_header_bytes_def get_reverse_header_bytes_def forward_reverse_split)

subsection \<open>Header size\<close>

text \<open>
  C9. For every packet, \<^verbatim>\<open>header_size\<close> is 14 + 20 + 20 = 54 when the protocol
  number of the packet is 6, and 14 + 20 = 34 otherwise; it reads nothing else of the
  packet. The three sizes are the ones the spec gives for \<^verbatim>\<open>len(Ether())\<close>,
  \<^verbatim>\<open>len(IP())\<close> and \<^verbatim>\<open>len(TCP())\<close>.
\<close>

theorem header_size_54_or_34:
  "header_size p = (if proto p = 6 then 14 + 20 + 20 else 14 + 20) \<and>
   header_size p = (if proto p = 6 then 54 else 34) \<and>
   header_size (p\<lparr>src := s, len := n, ip_ttl := t\<rparr>) = header_size p"
  by (simp add: header_size_def len_Ether_def len_IP_def len_TCP_def)

subsection \<open>Ratios\<close>

text \<open>
  C6. For every flow, \<^verbatim>\<open>get_header_in_out_ratio\<close> is -1 when the reverse header bytes
  of the flow are 0, and the forward header bytes divided by the reverse header bytes
  otherwise; for every state of the class attributes,
  \<^verbatim>\<open>get_total_header_in_out_ratio\<close> is -1 when the cumulative reverse total is 0, and
  the cumulative forward total divided by the cumulative reverse total otherwise.
\<close>

theorem header_in_out_ratios:
  "get_header_in_out_ratio feat =
     (if get_reverse_header_bytes feat = 0 then - 1
      else real_of_int (get_forward_header_bytes feat) /
           real_of_int (get_reverse_header_bytes feat)) \<and>
   get_total_header_in_out_ratio B =
     (if total_reverse_header_bytes B = 0 then - 1
      else real_of_int (total_forward_header_bytes B) /
           real_of_int (total_reverse_header_bytes B))"
  by (simp add: get_header_in_out_ratio_def get_total_header_in_out_ratio_def)

subsection \<open>The first two flows of a session\<close>

text \<open>
  C3. In a fresh session (the class attributes as the class body sets them, all zero),
  constructing one instance and then calling any one of the four getters of a cumulative
  total returns 0, for every flow, whatever the statistic of the flow is.
\<close>

theorem first_flow_total_is_zero:
  "fst (get_total_bytes_sent get_if_hwaddr feat (snd (Barks_init feat Barks))) = 0 \<and>
   fst (get_total_bytes_received get_if_hwaddr feat (snd (Barks_init feat Barks))) = 0 \<and>
   fst (get_total_forward_bytes feat (snd (Barks_init feat Barks))) = 0 \<and>
   fst (get_total_reverse_bytes feat (snd (Barks_init feat Barks))) = 0"
  by (simp add: Barks_init_def Barks_def get_total_bytes_sent_def get_total_bytes_received_def
      get_total_forward_bytes_def get_total_reverse_bytes_def)

text \<open>
  C4. In a fresh session, after a first instance has been constructed and its getter of a
  cumulative total called once, constructing a second instance and calling the same getter
  on it once returns the statistic of the second flow, for every pair of flows.
\<close>

theorem second_flow_total_is_its_own:
  "fst (get_total_bytes_sent h feat2 (snd (Barks_init feat2
      (snd (get_total_bytes_sent h feat1 (snd (Barks_init feat1 Barks))))))) =
     get_bytes_sent h feat2 \<and>
   fst (get_total_bytes_received h feat2 (snd (Barks_init feat2
      (snd (get_total_bytes_received h feat1 (snd (Barks_init feat1 Barks))))))) =
     get_bytes_received h feat2 \<and>
   fst (get_total_forward_bytes feat2 (snd (Barks_init feat2
      (snd (get_total_forward_bytes feat1 (snd (Barks_init feat1 Barks))))))) =
     get_forward_header_bytes feat2 \<and>
   fst (get_total_reverse_bytes feat2 (snd (Barks_init feat2
      (snd (get_total_reverse_bytes feat1 (snd (Barks_init feat1 Barks))))))) =
     get_reverse_header_bytes feat2"
  by (simp add: Barks_init_def Barks_def get_total_bytes_sent_def get_total_bytes_received_def
      get_total_forward_bytes_def get_total_reverse_bytes_def)

subsection \<open>What a call changes\<close>

lemma total_sent_effect:
  "snd (get_total_bytes_sent h feat B) =
     B\<lparr>total_bytes_sent := (if row B = 1 then 0 else total_bytes_sent B + get_bytes_sent h feat)\<rparr>"
  by (simp add: get_total_bytes_sent_def)

lemma total_received_effect:
  "snd (get_total_bytes_received h feat B) =
     B\<lparr>total_bytes_received :=
        (if row B = 1 then 0 else total_bytes_received B + get_bytes_received h feat)\<rparr>"
  by (simp add: get_total_bytes_received_def)

lemma total_forward_effect:
  "snd (get_total_forward_bytes feat B) =
     B\<lparr>total_forward_header_bytes :=
        (if row B = 1 then 0 else total_forward_header_bytes B + get_forward_header_bytes feat)\<rparr>"
  by (simp add: get_total_forward_bytes_def)

lemma total_reverse_effect:
  "snd (get_total_reverse_bytes feat B) =
     B\<lparr>total_reverse_header_bytes :=
        (if row B = 1 then 0 else total_reverse_header_bytes B + get_reverse_header_bytes feat)\<rparr>"
  by (simp add: get_total_reverse_bytes_def)

lemmas total_effects =
  total_sent_effect total_received_effect total_forward_effect total_reverse_effect

lemma call_effect:
  "snd (call h d g feat B) =
     (case g of
        Total_bytes_sent \<Rightarrow> snd (get_total_bytes_sent h feat B)
      | Total_bytes_received \<Rightarrow> snd (get_total_bytes_received h feat B)
      | Total_forward_bytes \<Rightarrow> snd (get_total_forward_bytes feat B)
      | Total_reverse_bytes \<Rightarrow> snd (get_total_reverse_bytes feat B)
      | _ \<Rightarrow> B)"
  by (cases g) (simp_all split: prod.splits sum.splits)

text \<open>
  C10. A call of a getter of a cumulative total changes at most its own class attribute:
  the attributes after \<^verbatim>\<open>get_total_bytes_sent\<close> are the ones before it with
  \<^verbatim>\<open>total_bytes_sent\<close> set to the value returned, so \<^verbatim>\<open>row\<close> and the other
  three totals are as before, and likewise for the other three getters and their
  attributes. A call of any getter leaves \<^verbatim>\<open>row\<close> as it is and leaves every total as
  it is but the getter's own; a call of a getter other than the four, among them
  \<^verbatim>\<open>get_total_header_in_out_ratio\<close>, the per-flow byte and header getters, the rates
  and the ratio, leaves every class attribute as it is.
\<close>

theorem calls_frame:
  "snd (get_total_bytes_sent h feat B) =
     B\<lparr>total_bytes_sent := fst (get_total_bytes_sent h feat B)\<rparr> \<and>
   snd (get_total_bytes_received h feat B) =
     B\<lparr>total_bytes_received := fst (get_total_bytes_received h feat B)\<rparr> \<and>
   snd (get_total_forward_bytes feat B) =
     B\<lparr>total_forward_header_bytes := fst (get_total_forward_bytes feat B)\<rparr> \<and>
   snd (get_total_reverse_bytes feat B) =
     B\<lparr>total_reverse_header_bytes := fst (get_total_reverse_bytes feat B)\<rparr> \<and>
   row (snd (call h d g feat B)) = row B \<and>
   (g \<noteq> Total_bytes_sent \<longrightarrow>
      total_bytes_sent (snd (call h d g feat B)) = total_bytes_sent B) \<and>
   (g \<noteq> Total_bytes_received \<longrightarrow>
      total_bytes_received (snd (call h d g feat B)) = total_bytes_received B) \<and>
   (g \<noteq> Total_forward_bytes \<longrightarrow>
      total_forward_header_bytes (snd (call h d g feat B)) = total_forward_header_bytes B) \<and>
   (g \<noteq> Total_reverse_bytes \<longrightarrow>
      total_reverse_header_bytes (snd (call h d g feat B)) = total_reverse_header_bytes B) \<and>
   (g \<notin> set total_getters \<longrightarrow> snd (call h d g feat B) = B)"
proof -
  have own:
    "snd (get_total_bytes_sent h feat B) =
       B\<lparr>total_bytes_sent := fst (get_total_bytes_sent h feat B)\<rparr>"
    "snd (get_total_bytes_received h feat B) =
       B\<lparr>total_bytes_received := fst (get_total_bytes_received h feat B)\<rparr>"
    "snd (get_total_forward_bytes feat B) =
       B\<lparr>total_forward_header_bytes := fst (get_total_forward_bytes feat B)\<rparr>"
    "snd (get_total_reverse_bytes feat B) =
       B\<lparr>total_reverse_header_bytes := fst (get_total_reverse_bytes feat B)\<rparr>"
    by (simp_all add: get_total_bytes_sent_def get_total_bytes_received_def
        get_total_forward_bytes_def get_total_reverse_bytes_def)
  have others:
    "row (snd (call h d g feat B)) = row B \<and>
     (g \<noteq> Total_bytes_sent \<longrightarrow>
        total_bytes_sent (snd (call h d g feat B)) = total_bytes_sent B) \<and>
     (g \<noteq> Total_bytes_received \<longrightarrow>
        total_bytes_received (snd (call h d g feat B)) = total_bytes_received B) \<and>
     (g \<noteq> Total_forward_bytes \<longrightarrow>
        total_forward_header_bytes (snd (call h d g feat B)) = total_forward_header_bytes B) \<and>
     (g \<noteq> Total_reverse_bytes \<longrightarrow>
        total_reverse_header_bytes (snd (call h d g feat B)) = total_reverse_header_bytes B) \<and>
     (g \<notin> set total_getters \<longrightarrow> snd (call h d g feat B) = B)"
    unfolding call_effect by (cases g) (simp_all add: total_effects total_getters_def)
  from own others show ?thesis by blast
qed

text \<open>The frame at concrete class attributes: a call of \<^verbatim>\<open>get_total_bytes_sent\<close> on
  the scenario flow in the middle of a session, and two calls that change nothing.\<close>

theorem calls_frame_witness:
  "snd (get_total_bytes_sent local_hwaddr flow_a mid_session) =
     mid_session\<lparr>total_bytes_sent := 182\<rparr> \<and>
   total_bytes_received (snd (call local_hwaddr two_seconds Total_bytes_sent flow_a mid_session)) = 11 \<and>
   row (snd (call local_hwaddr two_seconds Total_bytes_sent flow_a mid_session)) = 5 \<and>
   snd (call local_hwaddr two_seconds Total_header_in_out_ratio flow_a mid_session) = mid_session \<and>
   snd (call local_hwaddr two_seconds Forward_rate flow_a mid_session) = mid_session"
proof -
  note sent = calls_frame [of local_hwaddr flow_a mid_session two_seconds Total_bytes_sent]
  note ratio = calls_frame [of local_hwaddr flow_a mid_session two_seconds Total_header_in_out_ratio]
  note rate = calls_frame [of local_hwaddr flow_a mid_session two_seconds Forward_rate]
  have v: "fst (get_total_bytes_sent local_hwaddr flow_a mid_session) = 182"
    by (simp add: get_total_bytes_sent_def flow_a_values mid_session_def)
  have f1: "snd (get_total_bytes_sent local_hwaddr flow_a mid_session) =
      mid_session\<lparr>total_bytes_sent := 182\<rparr>"
    using sent v by metis
  have "Total_bytes_sent \<noteq> Total_bytes_received"
    by simp
  with sent have "total_bytes_received
      (snd (call local_hwaddr two_seconds Total_bytes_sent flow_a mid_session)) =
      total_bytes_received mid_session"
    by blast
  then have f2: "total_bytes_received
      (snd (call local_hwaddr two_seconds Total_bytes_sent flow_a mid_session)) = 11"
    by (simp only: mid_session_def barks.simps)
  from sent have "row (snd (call local_hwaddr two_seconds Total_bytes_sent flow_a mid_session)) =
      row mid_session"
    by blast
  then have f3: "row (snd (call local_hwaddr two_seconds Total_bytes_sent flow_a mid_session)) = 5"
    by (simp only: mid_session_def barks.simps)
  have "Total_header_in_out_ratio \<notin> set total_getters" and "Forward_rate \<notin> set total_getters"
    by (simp_all add: total_getters_def)
  with ratio rate
  have f4: "snd (call local_hwaddr two_seconds Total_header_in_out_ratio flow_a mid_session) =
      mid_session"
    and f5: "snd (call local_hwaddr two_seconds Forward_rate flow_a mid_session) = mid_session"
    by blast+
  show ?thesis
    by (intro conjI f1 f2 f3 f4 f5)
qed

subsection \<open>Rates\<close>

text \<open>
  C5. For every flow whose duration is exactly 0, each of the four rate getters,
  \<^verbatim>\<open>get_sent_rate\<close>, \<^verbatim>\<open>get_received_rate\<close>, \<^verbatim>\<open>get_forward_rate\<close> and
  \<^verbatim>\<open>get_reverse_rate\<close>, returns -1; for every flow whose duration is not 0, each
  returns its byte count divided by the duration. The duration is an elapsed time, so it
  is not negative; \<^verbatim>\<open>get_forward_rate\<close> tests \<^verbatim>\<open>duration > 0\<close> where the other
  three test \<^verbatim>\<open>duration == 0\<close>, and on elapsed times the two tests agree. The
  getters are total functions of the flow, the address and the duration: none of them
  raises.
\<close>

theorem rates:
  assumes "0 \<le> d feat"
  shows "(d feat = 0 \<longrightarrow>
      get_sent_rate h d feat = - 1 \<and> get_received_rate h d feat = - 1 \<and>
      get_forward_rate d feat = - 1 \<and> get_reverse_rate d feat = - 1) \<and>
   (d feat \<noteq> 0 \<longrightarrow>
      get_sent_rate h d feat = real_of_int (get_bytes_sent h feat) / d feat \<and>
      get_received_rate h d feat = real_of_int (get_bytes_received h feat) / d feat \<and>
      get_forward_rate d feat = real_of_int (get_forward_header_bytes feat) / d feat \<and>
      get_reverse_rate d feat = real_of_int (get_reverse_header_bytes feat) / d feat)"
proof (cases "d feat = 0")
  case True
  then show ?thesis
    by (simp add: get_sent_rate_def get_received_rate_def get_forward_rate_def
        get_reverse_rate_def)
next
  case False
  with assms have "0 < d feat"
    by simp
  with False show ?thesis
    by (simp add: get_sent_rate_def get_received_rate_def get_forward_rate_def
        get_reverse_rate_def)
qed

text \<open>The two cases on the scenario flow: durations 0 and 2.\<close>

theorem rates_witness:
  "get_sent_rate local_hwaddr no_time flow_a = - 1 \<and>
   get_received_rate local_hwaddr no_time flow_a = - 1 \<and>
   get_forward_rate no_time flow_a = - 1 \<and>
   get_reverse_rate no_time flow_a = - 1 \<and>
   get_sent_rate local_hwaddr two_seconds flow_a = 80 \<and>
   get_received_rate local_hwaddr two_seconds flow_a = 30 \<and>
   get_forward_rate two_seconds flow_a = 54 \<and>
   get_reverse_rate two_seconds flow_a = 27"
proof -
  have z: "0 \<le> no_time flow_a" and z0: "no_time flow_a = 0"
    by (simp_all add: no_time_def)
  have p: "0 \<le> two_seconds flow_a" and p0: "two_seconds flow_a \<noteq> 0"
    by (simp_all add: two_seconds_def)
  show ?thesis
    using z0 p0 rates [of no_time flow_a local_hwaddr, OF z]
      rates [of two_seconds flow_a local_hwaddr, OF p]
    by (simp add: flow_a_values two_seconds_def)
qed

subsection \<open>Initial time to live\<close>

lemma ttl_list_all_ip:
  assumes "\<forall>q\<in>set ps. ip_ttl (fst q) \<noteq> None"
  shows "ttl_list ps = Inr (map (\<lambda>q. the (ip_ttl (fst q))) ps)"
  using assms
proof (induction ps)
  case Nil
  show ?case by simp
next
  case (Cons q ps)
  obtain p direction where q: "q = (p, direction)"
    by (cases q)
  from Cons.prems q obtain t where t: "ip_ttl p = Some t"
    by auto
  from Cons have "ttl_list ps = Inr (map (\<lambda>q. the (ip_ttl (fst q))) ps)"
    by simp
  with q t show ?case by simp
qed

text \<open>
  C2, as the code has it. For every flow whose packet sequence is not empty and in which
  every packet has an IP layer, \<^verbatim>\<open>get_initial_ttl\<close> returns the TTL of the first
  packet. When the sequence is empty, or the first packet has no IP layer, it returns no
  value: it raises Python's IndexError, the one of the index 0 of an empty list or the one
  of the layer lookup of the packet, and not an error of its own for a missing TTL.
\<close>

theorem initial_ttl:
  "(\<forall>p direction ps t.
      packets feat = (p, direction) # ps \<and> ip_ttl p = Some t \<and>
      (\<forall>q\<in>set ps. ip_ttl (fst q) \<noteq> None) \<longrightarrow>
      get_initial_ttl feat = Inr t) \<and>
   (packets feat = [] \<longrightarrow> get_initial_ttl feat = Inl IndexError_list_index_out_of_range) \<and>
   (\<forall>p direction ps.
      packets feat = (p, direction) # ps \<and> ip_ttl p = None \<longrightarrow>
      get_initial_ttl feat = Inl IndexError_layer_not_found)"
proof (intro conjI allI impI)
  fix p direction ps t
  assume a: "packets feat = (p, direction) # ps \<and> ip_ttl p = Some t \<and>
      (\<forall>q\<in>set ps. ip_ttl (fst q) \<noteq> None)"
  then have "ttl_list ps = Inr (map (\<lambda>q. the (ip_ttl (fst q))) ps)"
    by (intro ttl_list_all_ip) blast
  with a show "get_initial_ttl feat = Inr t"
    by (simp add: get_initial_ttl_def)
next
  assume "packets feat = []"
  then show "get_initial_ttl feat = Inl IndexError_list_index_out_of_range"
    by (simp add: get_initial_ttl_def)
next
  fix p direction ps
  assume "packets feat = (p, direction) # ps \<and> ip_ttl p = None"
  then show "get_initial_ttl feat = Inl IndexError_layer_not_found"
    by (simp add: get_initial_ttl_def)
qed

text \<open>The three cases: the scenario flow, the flow without packets, and the flow whose
  first packet has no IP layer.\<close>

theorem initial_ttl_witness:
  "get_initial_ttl flow_a = Inr 64 \<and>
   get_initial_ttl flow_e = Inl IndexError_list_index_out_of_range \<and>
   get_initial_ttl flow_d = Inl IndexError_layer_not_found"
proof -
  have a: "packets flow_a =
      (ip_packet ''02:00:00:00:00:01'' 6 100, FORWARD) #
      [(ip_packet ''02:00:00:00:00:01'' 6 60, FORWARD),
       (ip_packet ''02:00:00:00:00:02'' 6 60, REVERSE)] \<and>
      ip_ttl (ip_packet ''02:00:00:00:00:01'' 6 100) = Some 64 \<and>
      (\<forall>q\<in>set [(ip_packet ''02:00:00:00:00:01'' 6 60, FORWARD),
                 (ip_packet ''02:00:00:00:00:02'' 6 60, REVERSE)]. ip_ttl (fst q) \<noteq> None)"
    by (simp add: flow_a_def ip_packet_def)
  have e: "packets flow_e = []"
    by (simp add: flow_e_def)
  have d: "packets flow_d =
      (other_packet ''02:00:00:00:00:02'' 42, FORWARD) #
      [(ip_packet ''02:00:00:00:00:01'' 6 100, REVERSE)] \<and>
      ip_ttl (other_packet ''02:00:00:00:00:02'' 42) = None"
    by (simp add: flow_d_def other_packet_def)
  from a initial_ttl [of flow_a] have f1: "get_initial_ttl flow_a = Inr 64"
    by blast
  from e initial_ttl [of flow_e]
  have f2: "get_initial_ttl flow_e = Inl IndexError_list_index_out_of_range"
    by blast
  from d initial_ttl [of flow_d] have f3: "get_initial_ttl flow_d = Inl IndexError_layer_not_found"
    by blast
  show ?thesis
    by (intro conjI f1 f2 f3)
qed

text \<open>
  The claim C2 as stated, that the TTL of the first packet is returned whenever the
  sequence is not empty and its first packet is an IP packet, fails on a flow whose first
  packet has TTL 64 and whose second packet has no IP layer: the list comprehension reads
  the TTL of every packet before the element 0 is taken, and raises at the second packet.
\<close>

theorem initial_ttl_later_packet_without_ip:
  "packets flow_c \<noteq> [] \<and>
   ip_ttl (fst (hd (packets flow_c))) = Some 64 \<and>
   get_initial_ttl flow_c = Inl IndexError_layer_not_found"
  by (simp add: get_initial_ttl_def flow_c_def ip_packet_def other_packet_def)

subsection \<open>Sessions\<close>

lemma call_row: "row (snd (call h d g feat B)) = row B"
  unfolding call_effect by (cases g) (simp_all add: total_effects)

lemma call_counter:
  assumes "t \<in> set total_getters" and "row B \<noteq> 1"
  shows "counter t (snd (call h d g feat B)) =
    counter t B + (if g = t then statistic h t feat else 0)"
  using assms unfolding call_effect total_getters_def
  by (cases g) (auto simp: total_effects)

lemma call_counter_other:
  assumes "g \<noteq> t"
  shows "counter t (snd (call h d g feat B)) = counter t B"
  using assms unfolding call_effect
  by (cases t; simp; cases g; simp add: total_effects)

lemma call_first_flow:
  assumes "row B = 1" and "\<forall>t\<in>set total_getters. counter t B = 0"
  shows "snd (call h d g feat B) = B"
  using assms unfolding call_effect total_getters_def
  by (cases g) (simp_all add: total_effects)

lemma exec_append:
  "exec h d (es @ es') st =
    (case exec h d es st of None \<Rightarrow> None | Some st' \<Rightarrow> exec h d es' st')"
  by (induction es arbitrary: st) (simp_all split: option.splits)

lemma exec_first_flow:
  assumes "row B = 1" and "\<forall>t\<in>set total_getters. counter t B = 0"
  shows "exec h d (map (Call 0) gs) ([feat], B) = Some ([feat], B)"
  using assms by (induction gs) (simp_all add: call_first_flow)

lemma exec_later:
  assumes "exec h d es (objs, B) = Some (objs', B')"
    and "row B = int (length objs)" and "objs \<noteq> []"
    and "t \<in> set total_getters" and "Call 0 t \<notin> set es"
  shows "row B' = int (length objs') \<and> objs' = objs @ constructed es \<and>
    counter t B' = counter t B + (\<Sum>i\<leftarrow>later_calls t es. statistic h t (objs' ! i))"
  using assms
proof (induction es arbitrary: objs B)
  case Nil
  then show ?case by simp
next
  case (Cons e es)
  show ?case
  proof (cases e)
    case (New feat)
    with Cons.prems
    have run: "exec h d es (objs @ [feat], B\<lparr>row := row B + 1\<rparr>) = Some (objs', B')"
      by (simp add: Barks_init_def)
    have "row B' = int (length objs') \<and> objs' = (objs @ [feat]) @ constructed es \<and>
      counter t B' = counter t (B\<lparr>row := row B + 1\<rparr>) +
        (\<Sum>i\<leftarrow>later_calls t es. statistic h t (objs' ! i))"
      using Cons.prems by (intro Cons.IH [OF run]) simp_all
    moreover have "counter t (B\<lparr>row := row B + 1\<rparr>) = counter t B"
      by (cases t) simp_all
    ultimately show ?thesis
      using New by simp
  next
    case (Call i g)
    with Cons.prems have i: "i < length objs"
      and run: "exec h d es (objs, snd (call h d g (objs ! i) B)) = Some (objs', B')"
      by (simp_all split: if_splits)
    have ih: "row B' = int (length objs') \<and> objs' = objs @ constructed es \<and>
      counter t B' = counter t (snd (call h d g (objs ! i) B)) +
        (\<Sum>i\<leftarrow>later_calls t es. statistic h t (objs' ! i))"
      using Cons.prems by (intro Cons.IH [OF run]) (simp_all add: call_row)
    with i have nth: "objs' ! i = objs ! i"
      by (simp add: nth_append)
    show ?thesis
    proof (cases "g = t")
      case True
      with Cons.prems Call have "i \<noteq> 0"
        by auto
      with i Cons.prems(2) have "row B \<noteq> 1"
        by simp
      then have "counter t (snd (call h d g (objs ! i) B)) =
          counter t B + statistic h t (objs ! i)"
        using call_counter [OF Cons.prems(4)] True by simp
      with ih nth True Call \<open>i \<noteq> 0\<close> show ?thesis
        by simp
    next
      case False
      then have "counter t (snd (call h d g (objs ! i) B)) = counter t B"
        by (rule call_counter_other)
      with ih False Call show ?thesis
        by simp
    qed
  qed
qed

text \<open>
  C1, as the code has it. Take any session that starts from the class attributes of the
  class body: a first instance is constructed, any getters are called on it, and then any
  sequence of constructions and of calls on the instances constructed follows, in which
  no getter of a cumulative total is called on the first instance any more (its getters of
  the totals are called before the second instance is constructed, or not at all). Then
  \<^verbatim>\<open>row\<close> is the number of instances constructed, the first flow contributes nothing
  to any of the four cumulative totals, and each total is the sum, over the calls of its
  getter on the second and later instances, of the statistic of the flow of that instance.
  When a getter is called at most once on each instance, the sum has one summand for each
  such flow.
\<close>

theorem session_totals:
  assumes run: "exec h d (New feat # map (Call 0) gs @ es) ([], Barks) = Some (objs, B)"
    and early: "\<forall>t\<in>set total_getters. Call 0 t \<notin> set es"
  shows "objs = feat # constructed es \<and> row B = int (length objs) \<and>
    total_bytes_sent B =
      (\<Sum>i\<leftarrow>later_calls Total_bytes_sent es. get_bytes_sent h (objs ! i)) \<and>
    total_bytes_received B =
      (\<Sum>i\<leftarrow>later_calls Total_bytes_received es. get_bytes_received h (objs ! i)) \<and>
    total_forward_header_bytes B =
      (\<Sum>i\<leftarrow>later_calls Total_forward_bytes es. get_forward_header_bytes (objs ! i)) \<and>
    total_reverse_header_bytes B =
      (\<Sum>i\<leftarrow>later_calls Total_reverse_bytes es. get_reverse_header_bytes (objs ! i))"
proof -
  let ?B1 = "Barks\<lparr>row := 1\<rparr>"
  have zero: "\<forall>t\<in>set total_getters. counter t ?B1 = 0"
    by (simp add: total_getters_def Barks_def)
  have first: "exec h d (map (Call 0) gs) ([feat], ?B1) = Some ([feat], ?B1)"
    by (rule exec_first_flow [OF _ zero]) simp
  have init: "Barks_init feat Barks = (feat, ?B1)"
    by (simp add: Barks_init_def Barks_def)
  have "exec h d (New feat # map (Call 0) gs @ es) ([], Barks) = exec h d es ([feat], ?B1)"
    by (simp add: init exec_append first)
  with run have rest: "exec h d es ([feat], ?B1) = Some (objs, B)"
    by simp
  have inv: "row B = int (length objs) \<and> objs = [feat] @ constructed es \<and>
      counter t B = counter t ?B1 + (\<Sum>i\<leftarrow>later_calls t es. statistic h t (objs ! i))"
    if "t \<in> set total_getters" for t
    using that early by (intro exec_later [OF rest]) simp_all
  show ?thesis
    using inv [of Total_bytes_sent] inv [of Total_bytes_received]
      inv [of Total_forward_bytes] inv [of Total_reverse_bytes]
    by (simp add: total_getters_def Barks_def)
qed

text \<open>A concrete session of three instances: the four getters of the totals are called
  on the first one before the second is constructed.\<close>

theorem session_totals_witness:
  "exec local_hwaddr two_seconds
     (New flow_a # map (Call 0) total_getters @ session_1) ([], Barks) =
     Some ([flow_a, flow_b, flow_a],
       \<lparr>total_bytes_received = 80, total_bytes_sent = 200,
         total_forward_header_bytes = 142, total_reverse_header_bytes = 34, row = 3\<rparr>) \<and>
   [flow_a, flow_b, flow_a] = flow_a # constructed session_1 \<and>
   later_calls Total_bytes_sent session_1 = [1, 2] \<and>
   get_bytes_sent local_hwaddr flow_b + get_bytes_sent local_hwaddr flow_a = 200"
proof -
  let ?B = "\<lparr>total_bytes_received = 80, total_bytes_sent = 200,
         total_forward_header_bytes = 142, total_reverse_header_bytes = 34, row = 3\<rparr>"
  have run: "exec local_hwaddr two_seconds
     (New flow_a # map (Call 0) total_getters @ session_1) ([], Barks) =
     Some ([flow_a, flow_b, flow_a], ?B)"
    by (simp add: session_1_def total_getters_def Barks_def Barks_init_def total_effects
        get_total_bytes_sent_def get_total_bytes_received_def get_total_forward_bytes_def
        get_total_reverse_bytes_def flow_a_values flow_b_values)
  have early: "\<forall>t\<in>set total_getters. Call 0 t \<notin> set session_1"
    by (simp add: session_1_def total_getters_def)
  have calls: "later_calls Total_bytes_sent session_1 = [1, 2]"
    by (simp add: session_1_def)
  from session_totals [OF run early]
  have objs: "[flow_a, flow_b, flow_a] = flow_a # constructed session_1"
    and "total_bytes_sent ?B =
      (\<Sum>i\<leftarrow>later_calls Total_bytes_sent session_1.
          get_bytes_sent local_hwaddr ([flow_a, flow_b, flow_a] ! i))"
    by blast+
  then have "get_bytes_sent local_hwaddr ([flow_a, flow_b, flow_a] ! 1) +
      get_bytes_sent local_hwaddr ([flow_a, flow_b, flow_a] ! 2) = 200"
    by (simp only: calls barks.simps list.map sum_list.Cons sum_list.Nil add_0_right)
  then have sum: "get_bytes_sent local_hwaddr flow_b + get_bytes_sent local_hwaddr flow_a = 200"
    by simp
  show ?thesis
    by (intro conjI run objs calls sum)
qed

text \<open>
  The claim C1 as stated, for any interleaving of constructions and calls, fails when the
  getter of the first instance is called after the second instance has been constructed:
  \<^verbatim>\<open>row\<close> is 2 then, not 1, and the 160 bytes sent of the first flow are added to the
  total, although no getter was called on a later instance.
\<close>

theorem first_flow_read_late:
  "exec local_hwaddr two_seconds [New flow_a, New flow_b, Call 0 Total_bytes_sent] ([], Barks) =
     Some ([flow_a, flow_b],
       \<lparr>total_bytes_received = 0, total_bytes_sent = 160,
         total_forward_header_bytes = 0, total_reverse_header_bytes = 0, row = 2\<rparr>) \<and>
   get_bytes_sent local_hwaddr flow_a = 160 \<and>
   later_calls Total_bytes_sent [New flow_a, New flow_b, Call 0 Total_bytes_sent] = []"
  by (simp add: Barks_def Barks_init_def get_total_bytes_sent_def flow_a_values)

end
